theory Spec2Isabelle
  imports Main "HOL-Library.Sublist"
begin

section \<open>Strings\<close>

text \<open>
  JavaScript strings are modelled as \<open>string\<close> (lists of 8-bit characters); every
  pattern of \<open>publish.js\<close> tests ASCII characters only.
\<close>

definition endsWith :: "string \<Rightarrow> string \<Rightarrow> bool" where
  \<comment> \<open>\<open>s.endsWith(suf)\<close>\<close>
  "endsWith s suf = (take (length suf) (rev s) = rev suf)"

definition startsWith :: "string \<Rightarrow> string \<Rightarrow> bool" where
  \<comment> \<open>\<open>s\<close> begins with \<open>p\<close>\<close>
  "startsWith s p = (take (length p) s = p)"

definition isLower :: "char \<Rightarrow> bool" where
  \<comment> \<open>the character class \<open>[a-z]\<close>\<close>
  "isLower c = (97 \<le> (of_char c :: nat) \<and> (of_char c :: nat) \<le> 122)"

section \<open>deslashUrl (publish.js, lines 59-62)\<close>

text \<open>
  \<open>url.replace(/(?<![a-z]+:)\/\//g, '/')\<close>.

  The lookbehind \<open>(?<![a-z]+:)\<close> inspects the subject string to the left of the
  current position: it succeeds there unless the preceding character is a colon that is
  itself preceded by at least one lower-case letter. The first argument of
  \<open>lookbehind\<close> and \<open>deslashFrom\<close> is the already scanned part of the
  subject, most recent character first.
\<close>

fun lookbehind :: "string \<Rightarrow> bool" where
  \<comment> \<open>does \<open>[a-z]+:\<close> match immediately to the left?\<close>
  "lookbehind (c # l # _) = (c = CHR '':'' \<and> isLower l)"
| "lookbehind _ = False"

text \<open>
  A global replace scans from left to right. At a position where the pattern matches, the
  two slashes are replaced by one and scanning resumes after the match; elsewhere the
  character is copied and scanning resumes one position further.
\<close>

fun deslashFrom :: "string \<Rightarrow> string \<Rightarrow> string" where
  "deslashFrom seen (c # d # rest) =
     (if c = CHR ''/'' \<and> d = CHR ''/'' \<and> \<not> lookbehind seen
      then CHR ''/'' # deslashFrom (d # c # seen) rest
      else c # deslashFrom (c # seen) (d # rest))"
| "deslashFrom seen rest = rest"

definition deslashUrl :: "string \<Rightarrow> string" where
  "deslashUrl url = deslashFrom [] url"

text \<open>Two slashes in a row, and three slashes in a row, somewhere in a string.\<close>

fun hasDoubleSlash :: "string \<Rightarrow> bool" where
  "hasDoubleSlash (c # d # rest) = ((c = CHR ''/'' \<and> d = CHR ''/'') \<or> hasDoubleSlash (d # rest))"
| "hasDoubleSlash _ = False"

fun hasTripleSlash :: "string \<Rightarrow> bool" where
  "hasTripleSlash (b # c # d # rest) =
     ((b = CHR ''/'' \<and> c = CHR ''/'' \<and> d = CHR ''/'') \<or> hasTripleSlash (c # d # rest))"
| "hasTripleSlash _ = False"

section \<open>Selection of the files to upload (publish.js, lines 106-111)\<close>

definition jsFiles :: "bool \<Rightarrow> string list \<Rightarrow> string list" where
  "jsFiles sourceMaps files =
     filter (\<lambda>f. f \<noteq> ''service-worker.js'')
       (filter (\<lambda>f. endsWith f ''.js'' \<or> (sourceMaps \<and> endsWith f ''.js.map'')) files)"

definition cssFiles :: "bool \<Rightarrow> string list \<Rightarrow> string list" where
  "cssFiles sourceMaps files =
     filter (\<lambda>f. endsWith f ''.css'' \<or> (sourceMaps \<and> endsWith f ''.css.map'')) files"

section \<open>JavaScript values of the command-line options\<close>

text \<open>
  An option parsed by commander is \<open>undefined\<close> when it is absent, a string when it
  is given with an argument, and a boolean for \<open>[optional]\<close> arguments and defaults.
\<close>

datatype jsval = JUndefined | JBool bool | JStr string

fun truthy :: "jsval \<Rightarrow> bool" where
  "truthy JUndefined = False"
| "truthy (JBool b) = b"
| "truthy (JStr s) = (s \<noteq> [])"

fun toStr :: "jsval \<Rightarrow> string" where
  \<comment> \<open>the string conversion applied by \<open>+\<close>, by template literals and by \<open>console.log\<close>\<close>
  "toStr JUndefined = ''undefined''"
| "toStr (JBool b) = (if b then ''true'' else ''false'')"
| "toStr (JStr s) = s"

record options =
  s3Bucket :: jsval
  s3Path :: jsval
  localPath :: jsval
  appVersion :: jsval
  publicUrlBase :: jsval
  sourceMaps :: jsval
  force :: jsval

section \<open>The world outside the script\<close>

text \<open>
  How the child process ends: with an exit code, by a signal (the code is \<open>null\<close>), or
  it cannot be spawned; \<open>SpawnFailed\<close> carries the text \<open>console.error\<close> prints for
  the error object.
\<close>

datatype childEnd = Exited int | Signalled | SpawnFailed string

record env =
  manifestVersion :: "jsval option"
    \<comment> \<open>\<open>require(appRoot + '/package.json').version\<close>; \<open>None\<close> when \<open>require\<close> throws\<close>
  objects :: "jsval \<Rightarrow> string list option"
    \<comment> \<open>the keys stored in a bucket; \<open>None\<close> when the list request fails\<close>
  runBuild :: "string \<Rightarrow> childEnd"
    \<comment> \<open>how \<open>npm run-script build\<close> ends when started with this \<open>PUBLIC_URL\<close>\<close>
  readdirSync :: "string \<Rightarrow> string + string list"
    \<comment> \<open>\<open>Inl\<close> carries the message of the exception thrown\<close>
  readFileSync :: "string \<Rightarrow> string option"
    \<comment> \<open>the bytes of a file; \<open>None\<close> when reading throws\<close>
  putObject :: "jsval \<Rightarrow> string \<Rightarrow> bool"
    \<comment> \<open>whether the put request for this bucket and key succeeds\<close>

section \<open>Observable behaviour\<close>

datatype event =
    Log string                            \<comment> \<open>a line written by \<open>console.log\<close>\<close>
  | LogError string                       \<comment> \<open>a line written by \<open>console.error\<close>\<close>
  | ListObjects jsval string              \<comment> \<open>list request: bucket, prefix\<close>
  | SpawnBuild string                     \<comment> \<open>the build subprocess is spawned with this \<open>PUBLIC_URL\<close>\<close>
  | ReadDir string
  | Upload jsval string string string     \<comment> \<open>\<open>uploadFileToS3\<close> is entered: bucket, key, file, type\<close>
  | PutObject jsval string string string  \<comment> \<open>put request: bucket, key, body, content type\<close>

datatype err =
    RequireFailed | ListObjectsRejected | BuildRejected childEnd | TypeError | UploadRejected

text \<open>
  The ways a run ends early: \<open>process.exit(n)\<close>, or a rejection of the promise of
  \<open>publish\<close>, which the handler of lines 1-5 reports and rethrows.
\<close>

datatype halt = ProcessExit nat | UnhandledRejection err

type_synonym 'a run = "event list \<times> (halt + 'a)"

definition pure :: "'a \<Rightarrow> 'a run" where
  "pure x = ([], Inr x)"

definition emit :: "event \<Rightarrow> unit run" where
  "emit e = ([e], Inr ())"

definition stop :: "halt \<Rightarrow> 'a run" where
  "stop h = ([], Inl h)"

definition andThen :: "'a run \<Rightarrow> ('a \<Rightarrow> 'b run) \<Rightarrow> 'b run" where
  "andThen m f =
     (case snd m of
        Inl h \<Rightarrow> (fst m, Inl h)
      | Inr x \<Rightarrow> (fst m @ fst (f x), snd (f x)))"

text \<open>
  The exit status of the process: 0 when \<open>publish\<close> completes, the argument of
  \<open>process.exit\<close>, and 1 for the exception the rejection handler rethrows.
\<close>

fun exitStatus :: "halt + unit \<Rightarrow> nat" where
  "exitStatus (Inr _) = 0"
| "exitStatus (Inl (ProcessExit n)) = n"
| "exitStatus (Inl (UnhandledRejection _)) = 1"

fun joinWords :: "string list \<Rightarrow> string" where
  "joinWords [] = []"
| "joinWords [w] = w"
| "joinWords (w # ws) = w @ '' '' @ joinWords ws"

definition logArgs :: "string list \<Rightarrow> unit run" where
  \<comment> \<open>\<open>console.log\<close> with several arguments separates them by a space\<close>
  "logArgs ws = emit (Log (joinWords ws))"

section \<open>build (publish.js, lines 16-31)\<close>

definition build :: "env \<Rightarrow> string \<Rightarrow> unit run" where
  "build e publicUrl =
     andThen (emit (SpawnBuild publicUrl)) (\<lambda>_.
       case runBuild e publicUrl of
         SpawnFailed err \<Rightarrow>
           andThen (emit (LogError (joinWords [''Build error'', err]))) (\<lambda>_.
             stop (UnhandledRejection (BuildRejected (SpawnFailed err))))
       | Exited code \<Rightarrow>
           if code = 0 then pure ()
           else stop (UnhandledRejection (BuildRejected (Exited code)))
       | Signalled \<Rightarrow> stop (UnhandledRejection (BuildRejected Signalled)))"

section \<open>pathExists (publish.js, lines 33-36)\<close>

definition listObjects :: "env \<Rightarrow> jsval \<Rightarrow> string \<Rightarrow> string list option" where
  \<comment> \<open>Modelled from the spec: the list-by-prefix primitive of the object-store client, which
      returns the objects whose key begins with the prefix.\<close>
  "listObjects e bucket pre =
     (case objects e bucket of
        None \<Rightarrow> None
      | Some keys \<Rightarrow> Some (filter (\<lambda>k. startsWith k pre) keys))"

definition pathExists :: "env \<Rightarrow> jsval \<Rightarrow> string \<Rightarrow> bool run" where
  "pathExists e bucket path =
     andThen (emit (ListObjects bucket path)) (\<lambda>_.
       case listObjects e bucket path of
         None \<Rightarrow> stop (UnhandledRejection ListObjectsRejected)
       | Some contents \<Rightarrow> pure (length contents > 0))"

section \<open>uploadFileToS3 and its two callers (publish.js, lines 38-57)\<close>

text \<open>
  An upload is started as soon as it is called: the log line, the synchronous read of the
  file and the put request happen at the call, and the boolean tells whether the returned
  promise is fulfilled.
\<close>

definition uploadFileToS3 ::
  "env \<Rightarrow> jsval \<Rightarrow> string \<Rightarrow> string \<Rightarrow> string \<Rightarrow> event list \<times> bool" where
  "uploadFileToS3 e bucket key file type =
     (case readFileSync e file of
        None \<Rightarrow>
          ([Upload bucket key file type, Log (joinWords [''Uploading'', file, ''to'', key])],
           False)
      | Some body \<Rightarrow>
          ([Upload bucket key file type, Log (joinWords [''Uploading'', file, ''to'', key]),
            PutObject bucket key body type],
           putObject e bucket key))"

definition uploadJsFileToS3 :: "env \<Rightarrow> jsval \<Rightarrow> string \<Rightarrow> string \<Rightarrow> event list \<times> bool" where
  "uploadJsFileToS3 e bucket key file = uploadFileToS3 e bucket key file ''application/javascript''"

definition uploadCssFileToS3 :: "env \<Rightarrow> jsval \<Rightarrow> string \<Rightarrow> string \<Rightarrow> event list \<times> bool" where
  "uploadCssFileToS3 e bucket key file = uploadFileToS3 e bucket key file ''text/css''"

definition promiseAll :: "(event list \<times> bool) list \<Rightarrow> unit run" where
  \<comment> \<open>\<open>await Promise.all(uploads)\<close>: rejected as soon as one of the promises is\<close>
  "promiseAll uploads =
     (concat (map fst uploads),
      if filter (\<lambda>u. \<not> snd u) uploads = [] then Inr ()
      else Inl (UnhandledRejection UploadRejected))"

section \<open>publish (publish.js, lines 64-143)\<close>

definition stripSlash :: "string \<Rightarrow> string" where
  \<comment> \<open>\<open>localPath.replace(/\/$/, '')\<close>\<close>
  "stripSlash s = (if endsWith s ''/'' then butlast s else s)"

definition resolveVersion :: "options \<Rightarrow> env \<Rightarrow> jsval run" where
  \<comment> \<open>line 73: \<open>appVersion || require(appRoot + '/package.json').version\<close>\<close>
  "resolveVersion opts e =
     (if truthy (appVersion opts) then pure (appVersion opts)
      else case manifestVersion e of
             None \<Rightarrow> stop (UnhandledRejection RequireFailed)
           | Some v \<Rightarrow> pure v)"

definition readFiles :: "env \<Rightarrow> bool \<Rightarrow> string \<Rightarrow> (string list \<times> string list) run" where
  \<comment> \<open>lines 104-116: the \<open>try\<close> block and its handler\<close>
  "readFiles e maps dir =
     andThen (emit (ReadDir dir)) (\<lambda>_.
       case readdirSync e dir of
         Inl message \<Rightarrow>
           andThen (emit (Log ''Couldn't read script path dir.'')) (\<lambda>_.
           andThen (emit (Log message)) (\<lambda>_.
             stop (ProcessExit 1)))
       | Inr files \<Rightarrow> pure (jsFiles maps files, cssFiles maps files))"

definition publish :: "options \<Rightarrow> env \<Rightarrow> unit run" where
  "publish opts e =
     andThen (resolveVersion opts e) (\<lambda>version.
     andThen (logArgs [''Preparing to deploy version'', toStr version, ''from'',
                toStr (localPath opts), ''to'',
                ''s3://'' @ toStr (s3Bucket opts) @ ''/'' @ toStr (s3Path opts)]) (\<lambda>_.
     let versionS3Path = toStr (s3Path opts) @ ''/'' @ toStr version in
     andThen (pathExists e (s3Bucket opts) versionS3Path) (\<lambda>exists.
     andThen
       (if exists then
          andThen (emit (Log (''Version '' @ toStr version @ '' already exists in S3.''))) (\<lambda>_.
            if truthy (force opts) then emit (Log ''Force flag is set, overwriting.'')
            else
              andThen (emit (Log ''If you wish to overwrite it please specify the --force option and run the script again.'')) (\<lambda>_.
                stop (ProcessExit 1)))
        else pure ()) (\<lambda>_.
     andThen (emit (Log ''Building app'')) (\<lambda>_.
     andThen (build e (deslashUrl (toStr (publicUrlBase opts) @ ''/'' @ versionS3Path @ ''/''))) (\<lambda>_.
     andThen (case localPath opts of
                JStr p \<Rightarrow> pure (stripSlash p)
              | _ \<Rightarrow> stop (UnhandledRejection TypeError)) (\<lambda>dir.
     andThen (readFiles e (truthy (sourceMaps opts)) dir) (\<lambda>(js, css).
     andThen
       (if length js = 0 then
          andThen (emit (Log ''No main js file found'')) (\<lambda>_. stop (ProcessExit 1))
        else pure ()) (\<lambda>_.
     let jsUploads = map (\<lambda>filename.
           uploadJsFileToS3 e (s3Bucket opts)
             (versionS3Path @ ''/'' @ filename) (dir @ ''/'' @ filename)) js;
         cssUploads = map (\<lambda>filename.
           uploadCssFileToS3 e (s3Bucket opts)
             (versionS3Path @ ''/'' @ filename) (dir @ ''/'' @ filename)) css;
         uploads = jsUploads @ cssUploads in
     andThen (promiseAll uploads) (\<lambda>_.
     andThen (emit (Log ''Deployment complete'')) (\<lambda>_.
     andThen (emit (Log ''Main script can now be found here:'')) (\<lambda>_.
       emit (Log (deslashUrl (toStr (publicUrlBase opts) @ ''/'' @ versionS3Path @ ''/main.js'')))))))))))))))"

section \<open>The script body (publish.js, lines 172-180)\<close>

definition required :: "string list" where
  "required = [''s3Bucket'', ''s3Path'', ''localPath'']"

definition program :: "options \<Rightarrow> string \<Rightarrow> jsval" where
  \<comment> \<open>\<open>program[opt]\<close>\<close>
  "program opts opt =
     (if opt = ''s3Bucket'' then s3Bucket opts
      else if opt = ''s3Path'' then s3Path opts
      else if opt = ''localPath'' then localPath opts
      else if opt = ''appVersion'' then appVersion opts
      else if opt = ''publicUrlBase'' then publicUrlBase opts
      else if opt = ''sourceMaps'' then sourceMaps opts
      else if opt = ''force'' then force opts
      else JUndefined)"

fun checkRequired :: "options \<Rightarrow> string list \<Rightarrow> unit run" where
  \<comment> \<open>the loop of lines 173-178\<close>
  "checkRequired opts [] = pure ()"
| "checkRequired opts (opt # rest) =
     (if program opts opt = JUndefined then
        andThen (logArgs [''Missing required argument'', opt]) (\<lambda>_. stop (ProcessExit 1))
      else checkRequired opts rest)"

definition script :: "options \<Rightarrow> env \<Rightarrow> unit run" where
  "script opts e = andThen (checkRequired opts required) (\<lambda>_. publish opts e)"

section \<open>Classes of events\<close>

fun isSpawn :: "event \<Rightarrow> bool" where
  "isSpawn (SpawnBuild _) = True"
| "isSpawn _ = False"

fun isUpload :: "event \<Rightarrow> bool" where
  "isUpload (Upload _ _ _ _) = True"
| "isUpload _ = False"

fun isPut :: "event \<Rightarrow> bool" where
  "isPut (PutObject _ _ _ _) = True"
| "isPut _ = False"

section \<open>Example configuration\<close>

definition exampleOptions :: options where
  "exampleOptions =
     \<lparr> s3Bucket = JStr ''assets'', s3Path = JStr ''apps'', localPath = JStr ''build/'',
       appVersion = JStr ''1.2'', publicUrlBase = JStr ''https://cdn.example.com/'',
       sourceMaps = JBool False, force = JUndefined \<rparr>"

definition exampleEnv :: "string list \<Rightarrow> string list \<Rightarrow> env" where
  \<comment> \<open>a bucket holding \<open>keys\<close>, a build that succeeds and leaves \<open>files\<close>, a store that
      accepts every request\<close>
  "exampleEnv keys files =
     \<lparr> manifestVersion = Some (JStr ''1.0.0''), objects = (\<lambda>_. Some keys),
       runBuild = (\<lambda>_. Exited 0), readdirSync = (\<lambda>_. Inr files),
       readFileSync = (\<lambda>_. Some ''bytes''), putObject = (\<lambda>_ _. True) \<rparr>"

section \<open>Sequencing\<close>

lemma andThen_Inl [simp]: "andThen (evs, Inl h) f = (evs, Inl h)"
  by (simp add: andThen_def)

lemma andThen_Inr [simp]: "andThen (evs, Inr x) f = (evs @ fst (f x), snd (f x))"
  by (simp add: andThen_def)

lemma andThen_pure [simp]: "andThen (pure x) f = f x"
  by (simp add: andThen_def pure_def)

lemma andThen_emit [simp]: "andThen (emit ev) f = (ev # fst (f ()), snd (f ()))"
  by (simp add: andThen_def emit_def)

lemma andThen_stop [simp]: "andThen (stop h) f = stop h"
  by (simp add: andThen_def stop_def)

lemma fst_stop [simp]: "fst (stop h) = []"
  and snd_stop [simp]: "snd (stop h) = Inl h"
  by (simp_all add: stop_def)

lemma fst_pure [simp]: "fst (pure x) = []"
  and snd_pure [simp]: "snd (pure x) = Inr x"
  by (simp_all add: pure_def)

lemma fst_emit [simp]: "fst (emit ev) = [ev]"
  and snd_emit [simp]: "snd (emit ev) = Inr ()"
  by (simp_all add: emit_def)

lemma fst_logArgs [simp]: "fst (logArgs ws) = [Log (joinWords ws)]"
  and snd_logArgs [simp]: "snd (logArgs ws) = Inr ()"
  by (simp_all add: logArgs_def)

lemma fst_andThen:
  "fst (andThen m f) = (case snd m of Inl h \<Rightarrow> fst m | Inr x \<Rightarrow> fst m @ fst (f x))"
  by (simp add: andThen_def split: sum.splits)

lemma snd_andThen:
  "snd (andThen m f) = (case snd m of Inl h \<Rightarrow> Inl h | Inr x \<Rightarrow> snd (f x))"
  by (simp add: andThen_def split: sum.splits)

lemma fst_resolveVersion [simp]: "fst (resolveVersion opts e) = []"
  by (simp add: resolveVersion_def split: option.splits)

lemma fst_pathExists [simp]: "fst (pathExists e bucket path) = [ListObjects bucket path]"
  by (simp add: pathExists_def split: option.splits)

lemma resolveVersion_halt: "snd (resolveVersion opts e) = Inl h \<Longrightarrow> 0 < exitStatus (Inl h)"
  by (auto simp: resolveVersion_def split: if_splits option.splits)

lemma pathExists_halt: "snd (pathExists e b p) = Inl h \<Longrightarrow> 0 < exitStatus (Inl h)"
  by (auto simp: pathExists_def split: option.splits)

lemma build_halt: "snd (build e u) = Inl h \<Longrightarrow> 0 < exitStatus (Inl h)"
  by (auto simp: build_def split: childEnd.splits if_splits)

lemma build_ok: "runBuild e u = Exited 0 \<Longrightarrow> build e u = ([SpawnBuild u], Inr ())"
  by (simp add: build_def)

lemma build_no_upload [simp]:
  "filter isUpload (fst (build e u)) = []" "filter isPut (fst (build e u)) = []"
  by (simp_all add: build_def split: childEnd.splits)

lemma readFiles_ok:
  "readdirSync e dir = Inr files \<Longrightarrow>
   readFiles e maps dir = ([ReadDir dir], Inr (jsFiles maps files, cssFiles maps files))"
  by (simp add: readFiles_def)

section \<open>Suffixes and prefixes\<close>

lemma endsWith_suffix: "endsWith s suf = suffix suf s"
  unfolding endsWith_def suffix_to_prefix prefix_def
  by (metis append_eq_conv_conj length_rev append_take_drop_id)

lemma startsWith_prefix: "startsWith s p = prefix p s"
  unfolding startsWith_def prefix_def
  by (metis append_eq_conv_conj append_take_drop_id)

lemma css_not_js:
  assumes "endsWith f ''.css''"
  shows "\<not> endsWith f ''.js''" and "\<not> endsWith f ''.js.map''"
proof -
  obtain pre where "f = pre @ ''.css''"
    using assms by (auto simp: endsWith_suffix suffix_def)
  then show "\<not> endsWith f ''.js''" and "\<not> endsWith f ''.js.map''"
    by (simp_all add: endsWith_def)
qed

lemma jsFiles_only_css:
  assumes "\<forall>f\<in>set files. endsWith f ''.css''"
  shows "jsFiles maps files = []"
  using assms css_not_js by (auto simp: jsFiles_def filter_empty_conv)

section \<open>Uploads\<close>

lemma filter_isUpload_uploads:
  "filter isUpload (concat (map fst (map (\<lambda>f. uploadFileToS3 e b (key f) (file f) type) fs)))
   = map (\<lambda>f. Upload b (key f) (file f) type) fs"
  by (induction fs) (simp_all add: uploadFileToS3_def split: option.splits)

lemma filter_isPut_uploads:
  "filter isPut (concat (map fst (map (\<lambda>f. uploadFileToS3 e b (key f) (file f) type) fs)))
   = concat (map (\<lambda>f. case readFileSync e (file f) of
                          None \<Rightarrow> []
                        | Some body \<Rightarrow> [PutObject b (key f) body type]) fs)"
  by (induction fs) (simp_all add: uploadFileToS3_def split: option.splits)

lemma upload_fulfilled:
  "snd (uploadFileToS3 e b key file type) = (readFileSync e file \<noteq> None \<and> putObject e b key)"
  by (simp add: uploadFileToS3_def split: option.splits)

lemma all_fulfilled:
  "filter (\<lambda>u. \<not> snd u) (map (\<lambda>f. uploadFileToS3 e b (key f) (file f) type) fs) = [] \<longleftrightarrow>
   (\<forall>f\<in>set fs. readFileSync e (file f) \<noteq> None \<and> putObject e b (key f))"
  by (induction fs) (auto simp: upload_fulfilled)

section \<open>Example runs\<close>

lemmas run_defs = publish_def Let_def resolveVersion_def pathExists_def listObjects_def
  startsWith_def build_def readFiles_def jsFiles_def cssFiles_def endsWith_def stripSlash_def
  uploadJsFileToS3_def uploadCssFileToS3_def uploadFileToS3_def promiseAll_def deslashUrl_def
  isLower_def logArgs_def emit_def pure_def stop_def exampleOptions_def exampleEnv_def

lemma run_conflict:
  "publish exampleOptions (exampleEnv [''apps/1.2.3/main.js''] [''app.js'', ''style.css'']) =
     ([Log ''Preparing to deploy version 1.2 from build/ to s3://assets/apps'',
       ListObjects (JStr ''assets'') ''apps/1.2'',
       Log ''Version 1.2 already exists in S3.'',
       Log ''If you wish to overwrite it please specify the --force option and run the script again.''],
      Inl (ProcessExit 1))"
  by (simp add: run_defs)

lemma run_success:
  "publish exampleOptions (exampleEnv [] [''app.js'', ''style.css'']) =
     ([Log ''Preparing to deploy version 1.2 from build/ to s3://assets/apps'',
       ListObjects (JStr ''assets'') ''apps/1.2'',
       Log ''Building app'',
       SpawnBuild ''https://cdn.example.com/apps/1.2/'',
       ReadDir ''build'',
       Upload (JStr ''assets'') ''apps/1.2/app.js'' ''build/app.js'' ''application/javascript'',
       Log ''Uploading build/app.js to apps/1.2/app.js'',
       PutObject (JStr ''assets'') ''apps/1.2/app.js'' ''bytes'' ''application/javascript'',
       Upload (JStr ''assets'') ''apps/1.2/style.css'' ''build/style.css'' ''text/css'',
       Log ''Uploading build/style.css to apps/1.2/style.css'',
       PutObject (JStr ''assets'') ''apps/1.2/style.css'' ''bytes'' ''text/css'',
       Log ''Deployment complete'',
       Log ''Main script can now be found here:'',
       Log ''https://cdn.example.com/apps/1.2/main.js''],
      Inr ())"
  by (simp add: run_defs)

lemma run_only_css:
  "publish exampleOptions (exampleEnv [] [''style.css'', ''print.css'']) =
     ([Log ''Preparing to deploy version 1.2 from build/ to s3://assets/apps'',
       ListObjects (JStr ''assets'') ''apps/1.2'',
       Log ''Building app'',
       SpawnBuild ''https://cdn.example.com/apps/1.2/'',
       ReadDir ''build'',
       Log ''No main js file found''],
      Inl (ProcessExit 1))"
  by (simp add: run_defs)

lemma run_forced:
  "publish (exampleOptions\<lparr>force := JBool True\<rparr>)
     (exampleEnv [''apps/1.2/main.js'']
        [''app.js'', ''app.js.map'', ''style.css'', ''service-worker.js'', ''readme.txt'']) =
     ([Log ''Preparing to deploy version 1.2 from build/ to s3://assets/apps'',
       ListObjects (JStr ''assets'') ''apps/1.2'',
       Log ''Version 1.2 already exists in S3.'',
       Log ''Force flag is set, overwriting.'',
       Log ''Building app'',
       SpawnBuild ''https://cdn.example.com/apps/1.2/'',
       ReadDir ''build'',
       Upload (JStr ''assets'') ''apps/1.2/app.js'' ''build/app.js'' ''application/javascript'',
       Log ''Uploading build/app.js to apps/1.2/app.js'',
       PutObject (JStr ''assets'') ''apps/1.2/app.js'' ''bytes'' ''application/javascript'',
       Upload (JStr ''assets'') ''apps/1.2/style.css'' ''build/style.css'' ''text/css'',
       Log ''Uploading build/style.css to apps/1.2/style.css'',
       PutObject (JStr ''assets'') ''apps/1.2/style.css'' ''bytes'' ''text/css'',
       Log ''Deployment complete'',
       Log ''Main script can now be found here:'',
       Log ''https://cdn.example.com/apps/1.2/main.js''],
      Inr ())"
  by (simp add: run_defs)

section \<open>The file selection\<close>

text \<open>
  C6. Selecting from app.js, app.js.map, style.css, service-worker.js, readme.txt gives the
  scripts app.js and the stylesheets style.css without source maps, and the scripts app.js,
  app.js.map and the stylesheets style.css with source maps.
\<close>

theorem classify_example:
  "jsFiles False [''app.js'', ''app.js.map'', ''style.css'', ''service-worker.js'', ''readme.txt'']
     = [''app.js'']
   \<and> cssFiles False [''app.js'', ''app.js.map'', ''style.css'', ''service-worker.js'', ''readme.txt'']
     = [''style.css'']
   \<and> jsFiles True [''app.js'', ''app.js.map'', ''style.css'', ''service-worker.js'', ''readme.txt'']
     = [''app.js'', ''app.js.map'']
   \<and> cssFiles True [''app.js'', ''app.js.map'', ''style.css'', ''service-worker.js'', ''readme.txt'']
     = [''style.css'']"
  by (simp add: jsFiles_def cssFiles_def endsWith_def)

text \<open>
  C7. Whatever the directory listing and the source-map flag, service-worker.js is neither
  among the selected scripts nor among the selected stylesheets.
\<close>

theorem service_worker_excluded:
  "''service-worker.js'' \<notin> set (jsFiles maps files)
   \<and> ''service-worker.js'' \<notin> set (cssFiles maps files)"
  by (simp add: jsFiles_def cssFiles_def endsWith_def)

section \<open>The overwrite guard\<close>

text \<open>
  C1. When the existence check answers that the version path exists and the force flag is
  not set, the run spawns no build, enters no upload, sends no put request, and ends by
  \<open>process.exit(1)\<close>, a non-zero exit status.
\<close>

theorem abort_when_version_exists:
  assumes "snd (resolveVersion opts e) = Inr version"
      and "snd (pathExists e (s3Bucket opts) (toStr (s3Path opts) @ ''/'' @ toStr version))
           = Inr True"
      and "\<not> truthy (force opts)"
  shows "filter isSpawn (fst (publish opts e)) = []
       \<and> filter isUpload (fst (publish opts e)) = []
       \<and> filter isPut (fst (publish opts e)) = []
       \<and> snd (publish opts e) = Inl (ProcessExit 1)
       \<and> exitStatus (snd (publish opts e)) \<noteq> 0"
  using assms by (simp add: publish_def Let_def fst_andThen snd_andThen)

theorem abort_when_version_exists_witness:
  "snd (resolveVersion exampleOptions (exampleEnv [''apps/1.2/main.js''] [''main.js'']))
     = Inr (JStr ''1.2'')
   \<and> snd (pathExists (exampleEnv [''apps/1.2/main.js''] [''main.js''])
            (s3Bucket exampleOptions)
            (toStr (s3Path exampleOptions) @ ''/'' @ toStr (JStr ''1.2''))) = Inr True
   \<and> \<not> truthy (force exampleOptions)
   \<and> filter isSpawn (fst (publish exampleOptions (exampleEnv [''apps/1.2/main.js''] [''main.js''])))
     = []
   \<and> filter isUpload (fst (publish exampleOptions (exampleEnv [''apps/1.2/main.js''] [''main.js''])))
     = []
   \<and> filter isPut (fst (publish exampleOptions (exampleEnv [''apps/1.2/main.js''] [''main.js''])))
     = []
   \<and> exitStatus (snd (publish exampleOptions (exampleEnv [''apps/1.2/main.js''] [''main.js''])))
     = 1"
proof -
  have v: "snd (resolveVersion exampleOptions (exampleEnv [''apps/1.2/main.js''] [''main.js'']))
           = Inr (JStr ''1.2'')"
    by (simp add: resolveVersion_def exampleOptions_def)
  have x: "snd (pathExists (exampleEnv [''apps/1.2/main.js''] [''main.js''])
             (s3Bucket exampleOptions)
             (toStr (s3Path exampleOptions) @ ''/'' @ toStr (JStr ''1.2''))) = Inr True"
    by (simp add: pathExists_def listObjects_def startsWith_def exampleOptions_def
        exampleEnv_def)
  have f: "\<not> truthy (force exampleOptions)"
    by (simp add: exampleOptions_def)
  show ?thesis
    using abort_when_version_exists [OF v x f] v x f by simp
qed

section \<open>The guard against an empty set of scripts\<close>

text \<open>
  C8. When the local directory holds only files ending in .css, the run enters no upload,
  sends no put request, and ends with a non-zero exit status.
\<close>

theorem no_upload_without_script:
  assumes "localPath opts = JStr p"
      and "readdirSync e (stripSlash p) = Inr files"
      and "\<forall>f\<in>set files. endsWith f ''.css''"
  shows "filter isUpload (fst (publish opts e)) = []
       \<and> filter isPut (fst (publish opts e)) = []
       \<and> exitStatus (snd (publish opts e)) \<noteq> 0"
proof -
  have js: "jsFiles (truthy (sourceMaps opts)) files = []"
    using assms(3) by (rule jsFiles_only_css)
  show ?thesis
    by (auto simp: publish_def Let_def fst_andThen snd_andThen assms(1) readFiles_ok [OF assms(2)] js
        split: sum.splits dest: resolveVersion_halt pathExists_halt build_halt)
qed

theorem no_upload_without_script_witness:
  "localPath exampleOptions = JStr ''build/''
   \<and> readdirSync (exampleEnv [] [''style.css'', ''print.css'']) (stripSlash ''build/'')
     = Inr [''style.css'', ''print.css'']
   \<and> endsWith ''style.css'' ''.css'' \<and> endsWith ''print.css'' ''.css''
   \<and> filter isUpload (fst (publish exampleOptions (exampleEnv [] [''style.css'', ''print.css''])))
     = []
   \<and> filter isPut (fst (publish exampleOptions (exampleEnv [] [''style.css'', ''print.css''])))
     = []
   \<and> exitStatus (snd (publish exampleOptions (exampleEnv [] [''style.css'', ''print.css''])))
     = 1"
proof -
  have l: "localPath exampleOptions = JStr ''build/''"
    by (simp add: exampleOptions_def)
  have r: "readdirSync (exampleEnv [] [''style.css'', ''print.css'']) (stripSlash ''build/'')
           = Inr [''style.css'', ''print.css'']"
    by (simp add: exampleEnv_def)
  have c: "\<forall>f\<in>set [''style.css'', ''print.css'']. endsWith f ''.css''"
    by (simp add: endsWith_def)
  show ?thesis
    using no_upload_without_script [OF l r c] l r c by (simp add: run_only_css)
qed

section \<open>The existence check\<close>

lemma build_spawn [simp]: "filter isSpawn (fst (build e u)) = [SpawnBuild u]"
  by (simp add: build_def split: childEnd.splits)

lemma readFiles_no_spawn [simp]: "filter isSpawn (fst (readFiles e maps dir)) = []"
  by (simp add: readFiles_def split: sum.splits)

lemma uploads_no_spawn:
  "filter isSpawn (concat (map fst (map (\<lambda>f. uploadFileToS3 e b (key f) (file f) type) fs))) = []"
  by (induction fs) (simp_all add: uploadFileToS3_def split: option.splits)

lemma pathExists_prefix:
  "objects e b = Some keys \<Longrightarrow>
   snd (pathExists e b pre) = Inr (\<exists>k\<in>set keys. startsWith k pre)"
  by (auto simp: pathExists_def listObjects_def filter_empty_conv)

lemma after_check_spawns:
  assumes rv: "snd (resolveVersion opts e) = Inr version"
      and pe: "snd (pathExists e (s3Bucket opts) (toStr (s3Path opts) @ ''/'' @ toStr version))
               = Inr exists"
      and go: "\<not> (exists \<and> \<not> truthy (force opts))"
  shows "filter isSpawn (fst (publish opts e)) =
         [SpawnBuild (deslashUrl (toStr (publicUrlBase opts) @ ''/'' @
            (toStr (s3Path opts) @ ''/'' @ toStr version) @ ''/''))]"
  using assms
  by (auto simp: publish_def Let_def fst_andThen snd_andThen uploadJsFileToS3_def
      uploadCssFileToS3_def promiseAll_def uploads_no_spawn
      simp del: map_map split: sum.splits jsval.splits prod.splits)

text \<open>
  C9. The existence check is a test on key prefixes and nothing else: with the keys of the
  bucket listed, pathExists answers true exactly when some key begins with the given
  string. Hence, with the force flag not set, a stored key that begins with the path, a
  slash and the version makes the run report that the version already exists and exit with
  status 1 without building, also when the key belongs to a longer version such as 1.2.3
  while 1.2 is published; and when no key begins with that string, the run goes on from the
  list request to the build.
\<close>

theorem existence_check_is_prefix_test:
  assumes rv: "snd (resolveVersion opts e) = Inr version"
      and ob: "objects e (s3Bucket opts) = Some keys"
      and vp: "vp = toStr (s3Path opts) @ ''/'' @ toStr version"
  shows "snd (pathExists e (s3Bucket opts) pre) = Inr (\<exists>k\<in>set keys. startsWith k pre)
       \<and> ((\<exists>k\<in>set keys. startsWith k vp) \<and> \<not> truthy (force opts) \<longrightarrow>
            snd (publish opts e) = Inl (ProcessExit 1)
            \<and> Log (''Version '' @ toStr version @ '' already exists in S3.'')
                \<in> set (fst (publish opts e))
            \<and> filter isSpawn (fst (publish opts e)) = [])
       \<and> (\<not> ((\<exists>k\<in>set keys. startsWith k vp) \<and> \<not> truthy (force opts)) \<longrightarrow>
            filter isSpawn (fst (publish opts e)) =
              [SpawnBuild (deslashUrl (toStr (publicUrlBase opts) @ ''/'' @ vp @ ''/''))])
       \<and> (\<not> (\<exists>k\<in>set keys. startsWith k vp) \<longrightarrow>
            take 3 (fst (publish opts e)) =
              [Log (joinWords [''Preparing to deploy version'', toStr version, ''from'',
                      toStr (localPath opts), ''to'',
                      ''s3://'' @ toStr (s3Bucket opts) @ ''/'' @ toStr (s3Path opts)]),
               ListObjects (s3Bucket opts) vp,
               Log ''Building app''])"
proof -
  have 1: "snd (pathExists e (s3Bucket opts) pre) = Inr (\<exists>k\<in>set keys. startsWith k pre)" for pre
    using ob by (rule pathExists_prefix)
  have pe: "snd (pathExists e (s3Bucket opts) (toStr (s3Path opts) @ ''/'' @ toStr version))
            = Inr (\<exists>k\<in>set keys. startsWith k vp)"
    unfolding vp by (rule 1)
  have 2: "snd (publish opts e) = Inl (ProcessExit 1)
           \<and> Log (''Version '' @ toStr version @ '' already exists in S3.'')
               \<in> set (fst (publish opts e))
           \<and> filter isSpawn (fst (publish opts e)) = []"
    if "\<exists>k\<in>set keys. startsWith k vp" and "\<not> truthy (force opts)"
    using rv pe that by (simp add: publish_def Let_def fst_andThen snd_andThen)
  have 3: "filter isSpawn (fst (publish opts e)) =
             [SpawnBuild (deslashUrl (toStr (publicUrlBase opts) @ ''/'' @ vp @ ''/''))]"
    if "\<not> ((\<exists>k\<in>set keys. startsWith k vp) \<and> \<not> truthy (force opts))"
    unfolding vp using after_check_spawns [OF rv pe] that by (simp add: vp)
  have 4: "take 3 (fst (publish opts e)) =
              [Log (joinWords [''Preparing to deploy version'', toStr version, ''from'',
                      toStr (localPath opts), ''to'',
                      ''s3://'' @ toStr (s3Bucket opts) @ ''/'' @ toStr (s3Path opts)]),
               ListObjects (s3Bucket opts) vp,
               Log ''Building app'']"
    if "\<not> (\<exists>k\<in>set keys. startsWith k vp)"
    using rv pe that unfolding vp
    by (simp add: publish_def Let_def fst_andThen snd_andThen)
  show ?thesis
    using 1 2 3 4 by blast
qed

theorem existence_check_is_prefix_test_witness:
  "snd (resolveVersion exampleOptions
          (exampleEnv [''apps/1.2.3/main.js''] [''app.js'', ''style.css''])) = Inr (JStr ''1.2'')
   \<and> objects (exampleEnv [''apps/1.2.3/main.js''] [''app.js'', ''style.css''])
        (s3Bucket exampleOptions) = Some [''apps/1.2.3/main.js'']
   \<and> toStr (s3Path exampleOptions) @ ''/'' @ toStr (JStr ''1.2'') = ''apps/1.2''
   \<and> \<not> truthy (force exampleOptions)
   \<and> startsWith ''apps/1.2.3/main.js'' ''apps/1.2''
   \<and> \<not> startsWith ''apps/1.2.3/main.js'' ''apps/1.2/''
   \<and> snd (pathExists (exampleEnv [''apps/1.2.3/main.js''] [''app.js'', ''style.css''])
            (s3Bucket exampleOptions) ''apps/1.2'') = Inr True
   \<and> snd (pathExists (exampleEnv [''apps/1.2.3/main.js''] [''app.js'', ''style.css''])
            (s3Bucket exampleOptions) ''apps/1.2/'') = Inr False
   \<and> snd (publish exampleOptions
            (exampleEnv [''apps/1.2.3/main.js''] [''app.js'', ''style.css''])) = Inl (ProcessExit 1)
   \<and> Log ''Version 1.2 already exists in S3.''
       \<in> set (fst (publish exampleOptions
                      (exampleEnv [''apps/1.2.3/main.js''] [''app.js'', ''style.css''])))
   \<and> filter isSpawn (fst (publish exampleOptions
         (exampleEnv [''apps/1.2.3/main.js''] [''app.js'', ''style.css'']))) = []
   \<and> objects (exampleEnv [''apps/1.3/main.js''] [''app.js'', ''style.css''])
        (s3Bucket exampleOptions) = Some [''apps/1.3/main.js'']
   \<and> \<not> startsWith ''apps/1.3/main.js'' ''apps/1.2''
   \<and> snd (pathExists (exampleEnv [''apps/1.3/main.js''] [''app.js'', ''style.css''])
            (s3Bucket exampleOptions) ''apps/1.2'') = Inr False
   \<and> filter isSpawn (fst (publish exampleOptions
         (exampleEnv [''apps/1.3/main.js''] [''app.js'', ''style.css''])))
     = [SpawnBuild ''https://cdn.example.com/apps/1.2/'']
   \<and> take 3 (fst (publish exampleOptions
         (exampleEnv [''apps/1.3/main.js''] [''app.js'', ''style.css''])))
     = [Log ''Preparing to deploy version 1.2 from build/ to s3://assets/apps'',
        ListObjects (JStr ''assets'') ''apps/1.2'',
        Log ''Building app'']"
proof -
  let ?taken = "exampleEnv [''apps/1.2.3/main.js''] [''app.js'', ''style.css'']"
  let ?free = "exampleEnv [''apps/1.3/main.js''] [''app.js'', ''style.css'']"
  have v1: "snd (resolveVersion exampleOptions ?taken) = Inr (JStr ''1.2'')"
    by (simp add: resolveVersion_def exampleOptions_def)
  have v2: "snd (resolveVersion exampleOptions ?free) = Inr (JStr ''1.2'')"
    by (simp add: resolveVersion_def exampleOptions_def)
  have o1: "objects ?taken (s3Bucket exampleOptions) = Some [''apps/1.2.3/main.js'']"
    by (simp add: exampleEnv_def)
  have o2: "objects ?free (s3Bucket exampleOptions) = Some [''apps/1.3/main.js'']"
    by (simp add: exampleEnv_def)
  have vp: "''apps/1.2'' = toStr (s3Path exampleOptions) @ ''/'' @ toStr (JStr ''1.2'')"
    by (simp add: exampleOptions_def)
  have f: "\<not> truthy (force exampleOptions)"
    by (simp add: exampleOptions_def)
  have s: "startsWith ''apps/1.2.3/main.js'' ''apps/1.2''"
    "\<not> startsWith ''apps/1.2.3/main.js'' ''apps/1.2/''"
    "\<not> startsWith ''apps/1.3/main.js'' ''apps/1.2''"
    by (simp_all add: startsWith_def)
  note taken = existence_check_is_prefix_test [OF v1 o1 vp]
  note free = existence_check_is_prefix_test [OF v2 o2 vp, of "''apps/1.2''"]
  show ?thesis
    using taken [of "''apps/1.2''"] taken [of "''apps/1.2/''"] free v1 o1 o2 f s
    by (simp add: exampleOptions_def deslashUrl_def isLower_def)
qed

section \<open>The reported address\<close>

text \<open>
  C10. A run that completes ends by printing the address made of the public URL base, the
  version path and the fixed name main.js, passed through deslashUrl, whatever files were
  selected and uploaded.
\<close>

theorem reported_url_is_main_js:
  assumes "snd (resolveVersion opts e) = Inr version"
      and "snd (publish opts e) = Inr ()"
  shows "last (fst (publish opts e)) =
         Log (deslashUrl (toStr (publicUrlBase opts) @ ''/'' @
                (toStr (s3Path opts) @ ''/'' @ toStr version) @ ''/main.js''))"
  using assms
  by (auto simp: publish_def Let_def fst_andThen snd_andThen
      split: sum.splits if_splits prod.splits)

theorem reported_url_is_main_js_witness:
  "snd (resolveVersion exampleOptions (exampleEnv [] [''app.js'', ''style.css'']))
     = Inr (JStr ''1.2'')
   \<and> snd (publish exampleOptions (exampleEnv [] [''app.js'', ''style.css''])) = Inr ()
   \<and> filter isUpload (fst (publish exampleOptions (exampleEnv [] [''app.js'', ''style.css''])))
     = [Upload (JStr ''assets'') ''apps/1.2/app.js'' ''build/app.js'' ''application/javascript'',
        Upload (JStr ''assets'') ''apps/1.2/style.css'' ''build/style.css'' ''text/css'']
   \<and> last (fst (publish exampleOptions (exampleEnv [] [''app.js'', ''style.css'']))) =
       Log (deslashUrl (toStr (publicUrlBase exampleOptions) @ ''/'' @
              (toStr (s3Path exampleOptions) @ ''/'' @ toStr (JStr ''1.2'')) @ ''/main.js''))
   \<and> deslashUrl (toStr (publicUrlBase exampleOptions) @ ''/'' @
        (toStr (s3Path exampleOptions) @ ''/'' @ toStr (JStr ''1.2'')) @ ''/main.js'')
     = ''https://cdn.example.com/apps/1.2/main.js''"
proof -
  have v: "snd (resolveVersion exampleOptions (exampleEnv [] [''app.js'', ''style.css'']))
           = Inr (JStr ''1.2'')"
    by (simp add: resolveVersion_def exampleOptions_def)
  have d: "snd (publish exampleOptions (exampleEnv [] [''app.js'', ''style.css''])) = Inr ()"
    by (simp add: run_success)
  have u: "deslashUrl (toStr (publicUrlBase exampleOptions) @ ''/'' @
             (toStr (s3Path exampleOptions) @ ''/'' @ toStr (JStr ''1.2'')) @ ''/main.js'')
           = ''https://cdn.example.com/apps/1.2/main.js''"
    by (simp add: exampleOptions_def deslashUrl_def isLower_def)
  have f: "filter isUpload (fst (publish exampleOptions (exampleEnv [] [''app.js'', ''style.css''])))
     = [Upload (JStr ''assets'') ''apps/1.2/app.js'' ''build/app.js'' ''application/javascript'',
        Upload (JStr ''assets'') ''apps/1.2/style.css'' ''build/style.css'' ''text/css'']"
    by (simp add: run_success)
  show ?thesis
    using reported_url_is_main_js [OF v d] v d u f by blast
qed

section \<open>The upload stage\<close>

text \<open>
  C2. A run that reaches the upload stage with the selected scripts \<open>js\<close> and stylesheets
  \<open>css\<close> enters exactly one upload per selected file, first the scripts with content type
  application/javascript, then the stylesheets with content type text/css; every put request
  carries the content type of its upload; and the run completes if and only if every file
  is read and every put request succeeds.
\<close>

theorem upload_fan_out:
  assumes rv: "snd (resolveVersion opts e) = Inr version"
      and vp: "vp = toStr (s3Path opts) @ ''/'' @ toStr version"
      and pe: "snd (pathExists e (s3Bucket opts) vp) = Inr exists"
      and go: "\<not> (exists \<and> \<not> truthy (force opts))"
      and bd: "runBuild e (deslashUrl (toStr (publicUrlBase opts) @ ''/'' @ vp @ ''/'')) = Exited 0"
      and lp: "localPath opts = JStr p"
      and rd: "readdirSync e (stripSlash p) = Inr files"
      and js: "js = jsFiles (truthy (sourceMaps opts)) files"
      and css: "css = cssFiles (truthy (sourceMaps opts)) files"
      and ne: "js \<noteq> []"
  shows "filter isUpload (fst (publish opts e)) =
           map (\<lambda>f. Upload (s3Bucket opts) (vp @ ''/'' @ f) (stripSlash p @ ''/'' @ f)
                  ''application/javascript'') js @
           map (\<lambda>f. Upload (s3Bucket opts) (vp @ ''/'' @ f) (stripSlash p @ ''/'' @ f)
                  ''text/css'') css
       \<and> length (filter isUpload (fst (publish opts e))) = length js + length css
       \<and> filter isPut (fst (publish opts e)) =
           concat (map (\<lambda>f. case readFileSync e (stripSlash p @ ''/'' @ f) of
                               None \<Rightarrow> []
                             | Some body \<Rightarrow> [PutObject (s3Bucket opts) (vp @ ''/'' @ f) body
                                              ''application/javascript'']) js) @
           concat (map (\<lambda>f. case readFileSync e (stripSlash p @ ''/'' @ f) of
                               None \<Rightarrow> []
                             | Some body \<Rightarrow> [PutObject (s3Bucket opts) (vp @ ''/'' @ f) body
                                              ''text/css'']) css)
       \<and> (snd (publish opts e) = Inr () \<longleftrightarrow>
           (\<forall>f\<in>set (js @ css).
              readFileSync e (stripSlash p @ ''/'' @ f) \<noteq> None
              \<and> putObject e (s3Bucket opts) (vp @ ''/'' @ f)))"
proof -
  have pe': "snd (pathExists e (s3Bucket opts) (toStr (s3Path opts) @ ''/'' @ toStr version))
             = Inr exists"
    using pe by (simp add: vp)
  have bd': "build e (deslashUrl (toStr (publicUrlBase opts) @ ''/'' @
               (toStr (s3Path opts) @ ''/'' @ toStr version) @ ''/'')) =
             ([SpawnBuild (deslashUrl (toStr (publicUrlBase opts) @ ''/'' @
               (toStr (s3Path opts) @ ''/'' @ toStr version) @ ''/''))], Inr ())"
    using bd by (simp add: vp build_ok)
  have ne': "jsFiles (truthy (sourceMaps opts)) files \<noteq> []"
    using ne by (simp add: js)
  note facts = rv pe' go bd' ne'
  note defs = publish_def Let_def fst_andThen snd_andThen lp readFiles_ok [OF rd]
    uploadJsFileToS3_def uploadCssFileToS3_def promiseAll_def
  have 1: "filter isUpload (fst (publish opts e)) =
           map (\<lambda>f. Upload (s3Bucket opts) (vp @ ''/'' @ f) (stripSlash p @ ''/'' @ f)
                  ''application/javascript'') js @
           map (\<lambda>f. Upload (s3Bucket opts) (vp @ ''/'' @ f) (stripSlash p @ ''/'' @ f)
                  ''text/css'') css"
    unfolding vp js css using facts
    by (auto simp: defs filter_isUpload_uploads simp del: map_map)
  have 2: "length (filter isUpload (fst (publish opts e))) = length js + length css"
    by (simp only: 1 length_append length_map)
  have 3: "filter isPut (fst (publish opts e)) =
           concat (map (\<lambda>f. case readFileSync e (stripSlash p @ ''/'' @ f) of
                               None \<Rightarrow> []
                             | Some body \<Rightarrow> [PutObject (s3Bucket opts) (vp @ ''/'' @ f) body
                                              ''application/javascript'']) js) @
           concat (map (\<lambda>f. case readFileSync e (stripSlash p @ ''/'' @ f) of
                               None \<Rightarrow> []
                             | Some body \<Rightarrow> [PutObject (s3Bucket opts) (vp @ ''/'' @ f) body
                                              ''text/css'']) css)"
    unfolding vp js css using facts
    by (auto simp: defs filter_isPut_uploads simp del: map_map cong: option.case_cong)
  have 4: "snd (publish opts e) = Inr () \<longleftrightarrow>
           (\<forall>f\<in>set (js @ css).
              readFileSync e (stripSlash p @ ''/'' @ f) \<noteq> None
              \<and> putObject e (s3Bucket opts) (vp @ ''/'' @ f))"
    unfolding vp js css using facts
    by (auto simp: defs all_fulfilled ball_Un)
  show ?thesis
    using 1 2 3 4 by blast
qed

theorem upload_fan_out_witness:
  "snd (resolveVersion (exampleOptions\<lparr>force := JBool True\<rparr>)
          (exampleEnv [''apps/1.2/main.js'']
             [''app.js'', ''app.js.map'', ''style.css'', ''service-worker.js'', ''readme.txt'']))
     = Inr (JStr ''1.2'')
   \<and> snd (pathExists
            (exampleEnv [''apps/1.2/main.js'']
               [''app.js'', ''app.js.map'', ''style.css'', ''service-worker.js'', ''readme.txt''])
            (JStr ''assets'') ''apps/1.2'') = Inr True
   \<and> truthy (force (exampleOptions\<lparr>force := JBool True\<rparr>))
   \<and> jsFiles False [''app.js'', ''app.js.map'', ''style.css'', ''service-worker.js'', ''readme.txt'']
     = [''app.js'']
   \<and> cssFiles False [''app.js'', ''app.js.map'', ''style.css'', ''service-worker.js'', ''readme.txt'']
     = [''style.css'']
   \<and> filter isUpload
        (fst (publish (exampleOptions\<lparr>force := JBool True\<rparr>)
                (exampleEnv [''apps/1.2/main.js'']
                   [''app.js'', ''app.js.map'', ''style.css'', ''service-worker.js'', ''readme.txt''])))
     = [Upload (JStr ''assets'') ''apps/1.2/app.js'' ''build/app.js'' ''application/javascript'',
        Upload (JStr ''assets'') ''apps/1.2/style.css'' ''build/style.css'' ''text/css'']
   \<and> filter isPut
        (fst (publish (exampleOptions\<lparr>force := JBool True\<rparr>)
                (exampleEnv [''apps/1.2/main.js'']
                   [''app.js'', ''app.js.map'', ''style.css'', ''service-worker.js'', ''readme.txt''])))
     = [PutObject (JStr ''assets'') ''apps/1.2/app.js'' ''bytes'' ''application/javascript'',
        PutObject (JStr ''assets'') ''apps/1.2/style.css'' ''bytes'' ''text/css'']
   \<and> snd (publish (exampleOptions\<lparr>force := JBool True\<rparr>)
            (exampleEnv [''apps/1.2/main.js'']
               [''app.js'', ''app.js.map'', ''style.css'', ''service-worker.js'', ''readme.txt'']))
     = Inr ()"
proof -
  let ?o = "exampleOptions\<lparr>force := JBool True\<rparr>"
  let ?files = "[''app.js'', ''app.js.map'', ''style.css'', ''service-worker.js'', ''readme.txt'']"
  let ?e = "exampleEnv [''apps/1.2/main.js''] ?files"
  have rv: "snd (resolveVersion ?o ?e) = Inr (JStr ''1.2'')"
    by (simp add: resolveVersion_def exampleOptions_def)
  have vp: "''apps/1.2'' = toStr (s3Path ?o) @ ''/'' @ toStr (JStr ''1.2'')"
    by (simp add: exampleOptions_def)
  have pe: "snd (pathExists ?e (s3Bucket ?o) ''apps/1.2'') = Inr True"
    by (simp add: pathExists_def listObjects_def startsWith_def exampleEnv_def)
  have go: "\<not> (True \<and> \<not> truthy (force ?o))"
    by simp
  have bd: "runBuild ?e (deslashUrl (toStr (publicUrlBase ?o) @ ''/'' @ ''apps/1.2'' @ ''/''))
            = Exited 0"
    by (simp add: exampleEnv_def)
  have lp: "localPath ?o = JStr ''build/''"
    by (simp add: exampleOptions_def)
  have rd: "readdirSync ?e (stripSlash ''build/'') = Inr ?files"
    by (simp add: exampleEnv_def)
  have js: "[''app.js''] = jsFiles (truthy (sourceMaps ?o)) ?files"
    by (simp add: jsFiles_def endsWith_def exampleOptions_def)
  have css: "[''style.css''] = cssFiles (truthy (sourceMaps ?o)) ?files"
    by (simp add: cssFiles_def endsWith_def exampleOptions_def)
  have ne: "[''app.js''] \<noteq> []"
    by simp
  show ?thesis
    using upload_fan_out [OF rv vp pe go bd lp rd js css ne] rv pe
    by (simp add: exampleOptions_def exampleEnv_def stripSlash_def jsFiles_def cssFiles_def
        endsWith_def)
qed

section \<open>deslashUrl\<close>

text \<open>
  Each match of the pattern is a pair of slashes, and matches do not overlap: of three
  slashes in a row the first two become one and the third is copied, so two remain. Where
  no three slashes stand in a row, a second pass changes nothing, and the result of a string
  without a colon has no two slashes in a row.
\<close>

lemma lookbehind_Cons:
  "lookbehind (c # seen) = (c = CHR '':'' \<and> seen \<noteq> [] \<and> isLower (hd seen))"
  by (cases seen) simp_all

lemma lookbehind_no_colon: "CHR '':'' \<notin> set seen \<Longrightarrow> \<not> lookbehind seen"
  by (cases seen) (auto simp: lookbehind_Cons)

lemma deslashFrom_Cons: "\<exists>t. deslashFrom seen (c # s) = c # t"
  by (cases s) auto

lemma hasTripleSlash_tl: "hasTripleSlash s \<Longrightarrow> hasTripleSlash (c # s)"
  by (cases s rule: hasTripleSlash.cases) auto

lemma no_double_slash_left:
  "CHR '':'' \<notin> set seen \<Longrightarrow> CHR '':'' \<notin> set s \<Longrightarrow> \<not> hasTripleSlash s \<Longrightarrow>
   \<not> hasDoubleSlash (deslashFrom seen s)"
proof (induction seen s rule: deslashFrom.induct)
  case (1 seen c d rest)
  have nl: "\<not> lookbehind seen"
    using "1.prems"(1) by (rule lookbehind_no_colon)
  show ?case
  proof (cases "c = CHR ''/'' \<and> d = CHR ''/''")
    case True
    have nt: "\<not> hasTripleSlash rest"
      using "1.prems"(3) hasTripleSlash_tl by blast
    have ih: "\<not> hasDoubleSlash (deslashFrom (d # c # seen) rest)"
      using "1.IH"(1) True nl "1.prems" nt by simp
    show ?thesis
    proof (cases rest)
      case Nil
      then show ?thesis using True nl by simp
    next
      case (Cons r rest')
      have r: "r \<noteq> CHR ''/''"
        using "1.prems"(3) True Cons by auto
      obtain t where t: "deslashFrom (d # c # seen) (r # rest') = r # t"
        using deslashFrom_Cons by blast
      show ?thesis
        using True nl ih r t Cons by simp
    qed
  next
    case False
    have nt: "\<not> hasTripleSlash (d # rest)"
      using "1.prems"(3) hasTripleSlash_tl by blast
    have ih: "\<not> hasDoubleSlash (deslashFrom (c # seen) (d # rest))"
      using "1.IH"(2) False "1.prems" nt by auto
    obtain t where t: "deslashFrom (c # seen) (d # rest) = d # t"
      using deslashFrom_Cons by blast
    show ?thesis
      using False ih t by auto
  qed
qed simp_all

lemma deslashFrom_twice:
  "(seen = [] \<longleftrightarrow> seen' = []) \<Longrightarrow> (seen \<noteq> [] \<longrightarrow> hd seen = hd seen') \<Longrightarrow>
   lookbehind seen = lookbehind seen' \<Longrightarrow> \<not> hasTripleSlash s \<Longrightarrow>
   deslashFrom seen' (deslashFrom seen s) = deslashFrom seen s"
proof (induction seen s arbitrary: seen' rule: deslashFrom.induct)
  case (1 seen c d rest)
  show ?case
  proof (cases "c = CHR ''/'' \<and> d = CHR ''/'' \<and> \<not> lookbehind seen")
    case True
    have nt: "\<not> hasTripleSlash rest"
      using "1.prems"(4) hasTripleSlash_tl by blast
    have ih: "deslashFrom (CHR ''/'' # seen') (deslashFrom (d # c # seen) rest)
              = deslashFrom (d # c # seen) rest"
      using True nt by (intro "1.IH"(1)) (simp_all add: lookbehind_Cons)
    show ?thesis
    proof (cases rest)
      case Nil
      then show ?thesis using True by simp
    next
      case (Cons r rest')
      have r: "r \<noteq> CHR ''/''"
        using "1.prems"(4) True Cons by auto
      obtain t where t: "deslashFrom (d # c # seen) (r # rest') = r # t"
        using deslashFrom_Cons by blast
      show ?thesis
        using True ih r t Cons by simp
    qed
  next
    case False
    have nt: "\<not> hasTripleSlash (d # rest)"
      using "1.prems"(4) hasTripleSlash_tl by blast
    have ih: "deslashFrom (c # seen') (deslashFrom (c # seen) (d # rest))
              = deslashFrom (c # seen) (d # rest)"
      using False nt "1.prems"(1,2) by (intro "1.IH"(2)) (auto simp: lookbehind_Cons)
    obtain t where t: "deslashFrom (c # seen) (d # rest) = d # t"
      using deslashFrom_Cons by blast
    show ?thesis
      using False ih t "1.prems"(3) by auto
  qed
qed simp_all

lemma deslashUrl_no_double_slash:
  "CHR '':'' \<notin> set url \<Longrightarrow> \<not> hasTripleSlash url \<Longrightarrow> \<not> hasDoubleSlash (deslashUrl url)"
  by (simp add: deslashUrl_def no_double_slash_left)

lemma deslashUrl_twice:
  "\<not> hasTripleSlash url \<Longrightarrow> deslashUrl (deslashUrl url) = deslashUrl url"
  by (simp add: deslashUrl_def deslashFrom_twice)

text \<open>
  Three slashes in a row reach deslashUrl from publish: with a public URL base that ends
  with a slash and a path on the bucket that begins with one, line 99 passes
  https://cdn.example.com///apps/1.2/ and the build is given an address with two slashes.
\<close>

lemma run_leading_slash:
  "toStr (publicUrlBase (exampleOptions\<lparr>s3Path := JStr ''/apps''\<rparr>)) @ ''/'' @
     (toStr (s3Path (exampleOptions\<lparr>s3Path := JStr ''/apps''\<rparr>)) @ ''/'' @ ''1.2'') @ ''/''
   = ''https://cdn.example.com///apps/1.2/''"
  and "filter isSpawn
         (fst (publish (exampleOptions\<lparr>s3Path := JStr ''/apps''\<rparr>) (exampleEnv [] [''main.js''])))
       = [SpawnBuild ''https://cdn.example.com//apps/1.2/'']"
  by (simp_all add: run_defs)

text \<open>
  C3. deslashUrl is claimed idempotent. It is not: of the three slashes that arise when the
  public URL base ends with a slash and the path on the bucket begins with one, the first
  pass leaves two, and a second pass removes one more.
\<close>

theorem deslashUrl_not_idempotent:
  "deslashUrl ''https://cdn.example.com///apps/1.2/'' = ''https://cdn.example.com//apps/1.2/''
   \<and> deslashUrl (deslashUrl ''https://cdn.example.com///apps/1.2/'')
     = ''https://cdn.example.com/apps/1.2/''
   \<and> deslashUrl (deslashUrl ''https://cdn.example.com///apps/1.2/'')
     \<noteq> deslashUrl ''https://cdn.example.com///apps/1.2/''"
  by (simp add: deslashUrl_def isLower_def)

text \<open>
  C4. The result of deslashUrl on a string without a scheme is claimed to have no two
  slashes in a row, and https://a//b//c is claimed to become https://a/b/c. The second
  holds; the first fails on a string without any colon that has three slashes in a row.
\<close>

theorem deslashUrl_leaves_double_slash:
  "CHR '':'' \<notin> set ''cdn.example.com///apps/1.2/''
   \<and> deslashUrl ''cdn.example.com///apps/1.2/'' = ''cdn.example.com//apps/1.2/''
   \<and> hasDoubleSlash (deslashUrl ''cdn.example.com///apps/1.2/'')
   \<and> deslashUrl ''https://a//b//c'' = ''https://a/b/c''"
  by (simp add: deslashUrl_def isLower_def)

section \<open>The required options\<close>

lemma checkRequired_present:
  "s3Bucket opts \<noteq> JUndefined \<Longrightarrow> s3Path opts \<noteq> JUndefined \<Longrightarrow>
   localPath opts \<noteq> JUndefined \<Longrightarrow> checkRequired opts required = pure ()"
  by (simp add: required_def program_def)

lemma script_runs_publish:
  "s3Bucket opts \<noteq> JUndefined \<Longrightarrow> s3Path opts \<noteq> JUndefined \<Longrightarrow>
   localPath opts \<noteq> JUndefined \<Longrightarrow> script opts e = publish opts e"
  by (simp add: script_def checkRequired_present)

lemma script_rejects_missing_option:
  assumes "s3Bucket opts = JUndefined \<or> s3Path opts = JUndefined \<or> localPath opts = JUndefined"
  shows "snd (script opts e) = Inl (ProcessExit 1)"
    and "\<exists>opt\<in>set required. fst (script opts e) = [Log (''Missing required argument '' @ opt)]"
  using assms by (auto simp: script_def required_def program_def fst_andThen snd_andThen)

text \<open>
  C5. Each of the four options bucket, path, local path and public URL base is claimed to
  end the run with a non-zero status when it is missing. The loop of lines 172-178 tests
  the first three only: without a public URL base the run lists the bucket, builds with
  the address undefined/apps/1.2/, uploads, and completes.
\<close>

theorem missing_public_url_base_not_rejected:
  "publicUrlBase (exampleOptions\<lparr>publicUrlBase := JUndefined\<rparr>) = JUndefined
   \<and> script (exampleOptions\<lparr>publicUrlBase := JUndefined\<rparr>) (exampleEnv [] [''main.js'']) =
     ([Log ''Preparing to deploy version 1.2 from build/ to s3://assets/apps'',
       ListObjects (JStr ''assets'') ''apps/1.2'',
       Log ''Building app'',
       SpawnBuild ''undefined/apps/1.2/'',
       ReadDir ''build'',
       Upload (JStr ''assets'') ''apps/1.2/main.js'' ''build/main.js'' ''application/javascript'',
       Log ''Uploading build/main.js to apps/1.2/main.js'',
       PutObject (JStr ''assets'') ''apps/1.2/main.js'' ''bytes'' ''application/javascript'',
       Log ''Deployment complete'',
       Log ''Main script can now be found here:'',
       Log ''undefined/apps/1.2/main.js''],
      Inr ())
   \<and> exitStatus (snd (script (exampleOptions\<lparr>publicUrlBase := JUndefined\<rparr>)
                         (exampleEnv [] [''main.js'']))) = 0"
  by (simp add: script_def required_def program_def run_defs)

end
